theory Spec2Isabelle
  imports Complex_Main
begin

section \<open>NumPy fragment used by the notebook\<close>

text \<open>
  The notebook works on one-dimensional \<open>float64\<close> arrays. An array is modelled by the
  list of its entries, read as real numbers (the model is exact arithmetic: rounding,
  overflow, \<open>inf\<close> and \<open>nan\<close> are outside it). An exception is a value of the sum
  type, \<open>Inl\<close> carrying the exception class.
\<close>

datatype py_error = IndexError | ValueError

definition bind_r :: "py_error + 'a \<Rightarrow> ('a \<Rightarrow> py_error + 'b) \<Rightarrow> py_error + 'b" where
  "bind_r m f = (case m of Inl e \<Rightarrow> Inl e | Inr v \<Rightarrow> f v)"

text \<open>\<open>a[i]\<close>: a negative index counts from the end; out of range raises IndexError.\<close>

definition py_get :: "'a list \<Rightarrow> int \<Rightarrow> py_error + 'a" where
  "py_get a i =
     (let j = (if i < 0 then int (length a) + i else i)
      in if j < 0 \<or> int (length a) \<le> j then Inl IndexError else Inr (a ! nat j))"

text \<open>\<open>a[i] = v\<close> on an array: same index rule, the array keeps its length.\<close>

definition py_set :: "'a list \<Rightarrow> int \<Rightarrow> 'a \<Rightarrow> py_error + 'a list" where
  "py_set a i v =
     (let j = (if i < 0 then int (length a) + i else i)
      in if j < 0 \<or> int (length a) \<le> j then Inl IndexError else Inr (a[nat j := v]))"

text \<open>
  A slice bound is clamped into \<open>0..len\<close> after a negative bound has been counted from
  the end; a missing bound is the start, respectively the end. Slicing never raises.
\<close>

definition slice_bound :: "nat \<Rightarrow> int \<Rightarrow> nat" where
  "slice_bound n i = (if i < 0 then nat (max 0 (int n + i)) else min n (nat i))"

definition slice_start :: "nat \<Rightarrow> int option \<Rightarrow> nat" where
  "slice_start n lo = (case lo of None \<Rightarrow> 0 | Some i \<Rightarrow> slice_bound n i)"

definition slice_stop :: "nat \<Rightarrow> int option \<Rightarrow> nat" where
  "slice_stop n hi = (case hi of None \<Rightarrow> n | Some i \<Rightarrow> slice_bound n i)"

definition py_slice :: "int option \<Rightarrow> int option \<Rightarrow> 'a list \<Rightarrow> 'a list" where
  "py_slice lo hi a =
     (let s = slice_start (length a) lo; e = slice_stop (length a) hi
      in take (e - s) (drop s a))"

text \<open>
  \<open>a[lo:hi] = v\<close> on an array: \<open>v\<close> must have the length of the slice, or length one
  (it is then repeated); anything else raises ValueError. The array keeps its length.
\<close>

definition py_set_slice :: "'a list \<Rightarrow> int option \<Rightarrow> int option \<Rightarrow> 'a list \<Rightarrow> py_error + 'a list" where
  "py_set_slice a lo hi v =
     (let s = slice_start (length a) lo; e = slice_stop (length a) hi; m = e - s
      in if length v = m then Inr (take s a @ v @ drop (s + m) a)
         else if length v = 1 then Inr (take s a @ replicate m (hd v) @ drop (s + m) a)
         else Inl ValueError)"

text \<open>
  An elementwise binary operation of two arrays, with NumPy's broadcasting in one
  dimension: equal lengths combine entry by entry, an operand of length one is repeated,
  any other pair of lengths raises ValueError.
\<close>

definition np_bin :: "('a \<Rightarrow> 'a \<Rightarrow> 'a) \<Rightarrow> 'a list \<Rightarrow> 'a list \<Rightarrow> py_error + 'a list" where
  "np_bin f a b =
     (if length a = length b then Inr (map2 f a b)
      else if length a = 1 then Inr (map (f (hd a)) b)
      else if length b = 1 then Inr (map (\<lambda>u. f u (hd b)) a)
      else Inl ValueError)"

definition zeros_like :: "real list \<Rightarrow> real list" where
  "zeros_like a = replicate (length a) 0"

section \<open>The objective\<close>

text \<open>
  \<^verbatim>\<open>
  def Rosenbrock(x):
      return np.sum(100.0 * (x[1:] - x[:-1]**2)**2 + (1 - x[:-1])**2)
  \<close>
\<close>

definition Rosenbrock :: "real list \<Rightarrow> py_error + real" where
  "Rosenbrock x =
     bind_r (np_bin (-) (py_slice (Some 1) None x) (map (\<lambda>v. v ^ 2) (py_slice None (Some (- 1)) x))) (\<lambda>d.
     bind_r (np_bin (+) (map (\<lambda>v. 100 * v ^ 2) d) (map (\<lambda>v. (1 - v) ^ 2) (py_slice None (Some (- 1)) x))) (\<lambda>t.
     Inr (sum_list t)))"

section \<open>The gradient\<close>

text \<open>
  \<^verbatim>\<open>
  def Rosenbrock_derivative(x):
      xm = x[1:-1]
      xm_m1 = x[:-2]
      xm_p1 = x[2:]
      derivative = np.zeros_like(x)
      derivative[1:-1] = 200 * (xm - xm_m1**2) - 400 * xm * (xm_p1 - xm ** 2) - 2 * (1 - xm)
      derivative[0] = -400 * x[0] * (x[1] - x[0]**2) - 2 * (1 - x[0])
      derivative[-1] = 200 * (x[-1] - x[-2]**2)
      return derivative
  \<close>
  The three right-hand sides are expressions in \<open>x\<close> alone; each is a definition of its
  own. (\<open>xm\<close>, \<open>xm_m1\<close> and \<open>xm_p1\<close> are views of \<open>x\<close>, read when the first right-hand
  side is evaluated.) The local array \<open>derivative\<close> is updated three times; each update
  is a new binding of the same name in the model.
\<close>

definition derivative_inner :: "real list \<Rightarrow> py_error + real list" where
  \<comment> \<open>the right-hand side of \<open>derivative[1:-1] = ...\<close>\<close>
  "derivative_inner x =
     (let xm = py_slice (Some 1) (Some (- 1)) x;
          xm_m1 = py_slice None (Some (- 2)) x;
          xm_p1 = py_slice (Some 2) None x
      in
      bind_r (np_bin (-) xm (map (\<lambda>v. v ^ 2) xm_m1)) (\<lambda>a.
      bind_r (np_bin (-) xm_p1 (map (\<lambda>v. v ^ 2) xm)) (\<lambda>b.
      bind_r (np_bin (*) (map (\<lambda>v. 400 * v) xm) b) (\<lambda>c.
      bind_r (np_bin (-) (map (\<lambda>v. 200 * v) a) c) (\<lambda>d.
      np_bin (-) d (map (\<lambda>v. 2 * (1 - v)) xm))))))"

definition derivative_first :: "real list \<Rightarrow> py_error + real" where
  \<comment> \<open>the right-hand side of \<open>derivative[0] = ...\<close>\<close>
  "derivative_first x =
     bind_r (py_get x 0) (\<lambda>x0.
     bind_r (py_get x 1) (\<lambda>x1.
     Inr (- 400 * x0 * (x1 - x0 ^ 2) - 2 * (1 - x0))))"

definition derivative_last :: "real list \<Rightarrow> py_error + real" where
  \<comment> \<open>the right-hand side of \<open>derivative[-1] = ...\<close>\<close>
  "derivative_last x =
     bind_r (py_get x (- 1)) (\<lambda>xl.
     bind_r (py_get x (- 2)) (\<lambda>xl2.
     Inr (200 * (xl - xl2 ^ 2))))"

definition Rosenbrock_derivative :: "real list \<Rightarrow> py_error + real list" where
  "Rosenbrock_derivative x =
     (let derivative = zeros_like x in
      bind_r (derivative_inner x) (\<lambda>mid.
      bind_r (py_set_slice derivative (Some 1) (Some (- 1)) mid) (\<lambda>derivative.
      bind_r (derivative_first x) (\<lambda>v0.
      bind_r (py_set derivative 0 v0) (\<lambda>derivative.
      bind_r (derivative_last x) (\<lambda>vl.
      bind_r (py_set derivative (- 1) vl) (\<lambda>derivative.
      Inr derivative)))))))"

section \<open>The dense Hessian\<close>

text \<open>
  A matrix is the list of its rows. \<open>np.diag(v, k)\<close> of a one-dimensional \<open>v\<close> is the
  square matrix of order \<open>len(v) + |k|\<close> with \<open>v\<close> on the \<open>k\<close>-th diagonal (above the
  main one for positive \<open>k\<close>) and zero elsewhere.
\<close>

definition np_diag :: "real list \<Rightarrow> int \<Rightarrow> real list list" where
  "np_diag v k =
     (let n = length v + nat \<bar>k\<bar>
      in map (\<lambda>i. map (\<lambda>j. if int j - int i = k then v ! (if 0 \<le> k then i else j) else 0) [0..<n]) [0..<n])"

fun sequence_r :: "(py_error + 'a) list \<Rightarrow> py_error + 'a list" where
  "sequence_r [] = Inr []"
| "sequence_r (m # ms) = bind_r m (\<lambda>v. bind_r (sequence_r ms) (\<lambda>vs. Inr (v # vs)))"

text \<open>
  An elementwise binary operation of two matrices: broadcasting applies to the rows as it
  does inside a row. (The matrices of the notebook are square and come from \<open>np.diag\<close>;
  a matrix without rows is the one of shape \<open>(0, 0)\<close>.)
\<close>

definition np_bin2 :: "(real \<Rightarrow> real \<Rightarrow> real) \<Rightarrow> real list list \<Rightarrow> real list list \<Rightarrow> py_error + real list list" where
  "np_bin2 f A B =
     (if length A = length B then sequence_r (map2 (np_bin f) A B)
      else if length A = 1 then sequence_r (map (np_bin f (hd A)) B)
      else if length B = 1 then sequence_r (map (\<lambda>r. np_bin f r (hd B)) A)
      else Inl ValueError)"

text \<open>
  \<^verbatim>\<open>
  def Rosenbrock_second_derivative(x):
      x = np.asarray(x)
      H = np.diag(-400 * x[:-1], 1) - np.diag(400 * x[:-1], -1)
      diagonal = np.zeros_like(x)
      diagonal[0] = 1200 * x[0]**2 - 400 * x[1] + 2
      diagonal[-1] = 200
      diagonal[1:-1] = 202 + 1200 * x[1:-1]**2 - 400 * x[2:]
      H = H + np.diag(diagonal)
      return H
  \<close>
  \<open>np.asarray\<close> of an array is that array.
\<close>

definition H_offdiagonal :: "real list \<Rightarrow> py_error + real list list" where
  \<comment> \<open>\<open>np.diag(-400 * x[:-1], 1) - np.diag(400 * x[:-1], -1)\<close>\<close>
  "H_offdiagonal x =
     np_bin2 (-) (np_diag (map (\<lambda>v. - 400 * v) (py_slice None (Some (- 1)) x)) 1)
                 (np_diag (map (\<lambda>v. 400 * v) (py_slice None (Some (- 1)) x)) (- 1))"

definition diagonal_first :: "real list \<Rightarrow> py_error + real" where
  \<comment> \<open>the right-hand side of \<open>diagonal[0] = ...\<close>\<close>
  "diagonal_first x =
     bind_r (py_get x 0) (\<lambda>x0.
     bind_r (py_get x 1) (\<lambda>x1.
     Inr (1200 * x0 ^ 2 - 400 * x1 + 2)))"

definition diagonal_inner :: "real list \<Rightarrow> py_error + real list" where
  \<comment> \<open>the right-hand side of \<open>diagonal[1:-1] = ...\<close>\<close>
  "diagonal_inner x =
     np_bin (-) (map (\<lambda>v. 202 + 1200 * v ^ 2) (py_slice (Some 1) (Some (- 1)) x))
                (map (\<lambda>v. 400 * v) (py_slice (Some 2) None x))"

definition Rosenbrock_second_derivative :: "real list \<Rightarrow> py_error + real list list" where
  "Rosenbrock_second_derivative x =
     bind_r (H_offdiagonal x) (\<lambda>H.
     (let diagonal = zeros_like x in
      bind_r (diagonal_first x) (\<lambda>v0.
      bind_r (py_set diagonal 0 v0) (\<lambda>diagonal.
      bind_r (py_set diagonal (- 1) 200) (\<lambda>diagonal.
      bind_r (diagonal_inner x) (\<lambda>mid.
      bind_r (py_set_slice diagonal (Some 1) (Some (- 1)) mid) (\<lambda>diagonal.
      np_bin2 (+) H (np_diag diagonal 0))))))))"

section \<open>The Hessian-vector product\<close>

text \<open>
  \<^verbatim>\<open>
  def Rosenbrock_second_derivative_p(x, p):
      x = np.asarray(x)
      Hp = np.zeros_like(x)
      Hp[0] = (1200 * x[0]**2 - 400 * x[1] + 2) * p[0] - 400 * x[0] * p[1]
      Hp[1:-1] = -400 * x[:-2] * p[:-2] + (202 + 1200 * x[1:-1]**2 - 400 * x[2:]) * p[1:-1] -400 * x[1:-1] * p[2:]
      Hp[-1] = -400 * x[-2] * p[-2] + 200 * p[-1]
      return Hp
  \<close>
\<close>

definition Hp_first :: "real list \<Rightarrow> real list \<Rightarrow> py_error + real" where
  \<comment> \<open>the right-hand side of \<open>Hp[0] = ...\<close>\<close>
  "Hp_first x p =
     bind_r (py_get x 0) (\<lambda>x0.
     bind_r (py_get x 1) (\<lambda>x1.
     bind_r (py_get p 0) (\<lambda>p0.
     bind_r (py_get p 1) (\<lambda>p1.
     Inr ((1200 * x0 ^ 2 - 400 * x1 + 2) * p0 - 400 * x0 * p1)))))"

definition Hp_inner :: "real list \<Rightarrow> real list \<Rightarrow> py_error + real list" where
  \<comment> \<open>the right-hand side of \<open>Hp[1:-1] = ...\<close>\<close>
  "Hp_inner x p =
     bind_r (np_bin (*) (map (\<lambda>v. - 400 * v) (py_slice None (Some (- 2)) x)) (py_slice None (Some (- 2)) p)) (\<lambda>a.
     bind_r (np_bin (-) (map (\<lambda>v. 202 + 1200 * v ^ 2) (py_slice (Some 1) (Some (- 1)) x))
                        (map (\<lambda>v. 400 * v) (py_slice (Some 2) None x))) (\<lambda>dg.
     bind_r (np_bin (*) dg (py_slice (Some 1) (Some (- 1)) p)) (\<lambda>b.
     bind_r (np_bin (+) a b) (\<lambda>ab.
     bind_r (np_bin (*) (map (\<lambda>v. 400 * v) (py_slice (Some 1) (Some (- 1)) x)) (py_slice (Some 2) None p)) (\<lambda>c.
     np_bin (-) ab c)))))"

definition Hp_last :: "real list \<Rightarrow> real list \<Rightarrow> py_error + real" where
  \<comment> \<open>the right-hand side of \<open>Hp[-1] = ...\<close>\<close>
  "Hp_last x p =
     bind_r (py_get x (- 2)) (\<lambda>xl2.
     bind_r (py_get p (- 2)) (\<lambda>pl2.
     bind_r (py_get p (- 1)) (\<lambda>pl.
     Inr (- 400 * xl2 * pl2 + 200 * pl))))"

definition Rosenbrock_second_derivative_p :: "real list \<Rightarrow> real list \<Rightarrow> py_error + real list" where
  "Rosenbrock_second_derivative_p x p =
     (let Hp = zeros_like x in
      bind_r (Hp_first x p) (\<lambda>v0.
      bind_r (py_set Hp 0 v0) (\<lambda>Hp.
      bind_r (Hp_inner x p) (\<lambda>mid.
      bind_r (py_set_slice Hp (Some 1) (Some (- 1)) mid) (\<lambda>Hp.
      bind_r (Hp_last x p) (\<lambda>vl.
      bind_r (py_set Hp (- 1) vl) (\<lambda>Hp.
      Inr Hp)))))))"


section \<open>The routines on a store of arrays\<close>

text \<open>
  An array is an object: the routines receive references, slices are views of the array
  they are taken from, and an assignment to an entry or a slice changes the array in
  place. The store maps each reference to the entries of its array; the references below
  \<open>used\<close> are the arrays that exist.
\<close>

record store =
  heap :: "nat \<Rightarrow> real list"
  used :: nat

type_synonym 'a st = "store \<Rightarrow> (py_error + 'a) \<times> store"

text \<open>
  A statement takes the store and returns it with its result or the exception it raised;
  statements run in sequence until one raises.
\<close>

definition st_return :: "'a \<Rightarrow> 'a st" where
  "st_return v s = (Inr v, s)"

definition st_bind :: "'a st \<Rightarrow> ('a \<Rightarrow> 'b st) \<Rightarrow> 'b st" where
  "st_bind m f s = (case m s of (Inl e, s') \<Rightarrow> (Inl e, s') | (Inr v, s') \<Rightarrow> f v s')"

definition st_eval :: "(real list \<Rightarrow> py_error + 'a) \<Rightarrow> nat \<Rightarrow> 'a st" where
  "st_eval f a s = (f (heap s a), s)"

definition st_eval2 :: "(real list \<Rightarrow> real list \<Rightarrow> py_error + 'a) \<Rightarrow> nat \<Rightarrow> nat \<Rightarrow> 'a st" where
  "st_eval2 f a b s = (f (heap s a) (heap s b), s)"

text \<open>
  \<open>np.zeros_like\<close> creates an array at the next free reference. \<open>np.asarray\<close> of an array
  returns the same reference. An assignment writes into the array the reference names.
  An expression (\<open>st_eval\<close>, \<open>st_eval2\<close>) reads the arrays as they are in the store when
  it is evaluated, through the views taken earlier as well; the arrays it builds on the
  way are values, no other name can reach them.
\<close>

definition st_zeros_like :: "nat \<Rightarrow> nat st" where
  "st_zeros_like a s =
     (Inr (used s), s\<lparr>heap := (heap s)(used s := zeros_like (heap s a)), used := Suc (used s)\<rparr>)"

definition st_asarray :: "nat \<Rightarrow> nat st" where
  "st_asarray a = st_return a"

definition st_set :: "nat \<Rightarrow> int \<Rightarrow> real \<Rightarrow> unit st" where
  "st_set a i v s =
     (case py_set (heap s a) i v of
        Inl e \<Rightarrow> (Inl e, s)
      | Inr b \<Rightarrow> (Inr (), s\<lparr>heap := (heap s)(a := b)\<rparr>))"

definition st_set_slice :: "nat \<Rightarrow> int option \<Rightarrow> int option \<Rightarrow> real list \<Rightarrow> unit st" where
  "st_set_slice a lo hi v s =
     (case py_set_slice (heap s a) lo hi v of
        Inl e \<Rightarrow> (Inl e, s)
      | Inr b \<Rightarrow> (Inr (), s\<lparr>heap := (heap s)(a := b)\<rparr>))"

text \<open>
  The four routines, statement by statement as in the notebook. The matrices of
  \<open>Rosenbrock_second_derivative\<close> are values: \<open>np.diag\<close> and the sums build new ones,
  and \<open>H = H + ...\<close> binds the name again.
\<close>

definition Rosenbrock_st :: "nat \<Rightarrow> real st" where
  "Rosenbrock_st x = st_eval Rosenbrock x"

definition Rosenbrock_derivative_st :: "nat \<Rightarrow> nat st" where
  "Rosenbrock_derivative_st x =
     st_bind (st_zeros_like x) (\<lambda>derivative.
     st_bind (st_eval derivative_inner x) (\<lambda>mid.
     st_bind (st_set_slice derivative (Some 1) (Some (- 1)) mid) (\<lambda>_.
     st_bind (st_eval derivative_first x) (\<lambda>v0.
     st_bind (st_set derivative 0 v0) (\<lambda>_.
     st_bind (st_eval derivative_last x) (\<lambda>vl.
     st_bind (st_set derivative (- 1) vl) (\<lambda>_.
     st_return derivative)))))))"

definition Rosenbrock_second_derivative_st :: "nat \<Rightarrow> (real list list) st" where
  "Rosenbrock_second_derivative_st x0 =
     st_bind (st_asarray x0) (\<lambda>x.
     st_bind (st_eval H_offdiagonal x) (\<lambda>H.
     st_bind (st_zeros_like x) (\<lambda>diagonal.
     st_bind (st_eval diagonal_first x) (\<lambda>v0.
     st_bind (st_set diagonal 0 v0) (\<lambda>_.
     st_bind (st_set diagonal (- 1) 200) (\<lambda>_.
     st_bind (st_eval diagonal_inner x) (\<lambda>mid.
     st_bind (st_set_slice diagonal (Some 1) (Some (- 1)) mid) (\<lambda>_.
     st_eval (\<lambda>d. np_bin2 (+) H (np_diag d 0)) diagonal))))))))"

definition Rosenbrock_second_derivative_p_st :: "nat \<Rightarrow> nat \<Rightarrow> nat st" where
  "Rosenbrock_second_derivative_p_st x0 p =
     st_bind (st_asarray x0) (\<lambda>x.
     st_bind (st_zeros_like x) (\<lambda>Hp.
     st_bind (st_eval2 Hp_first x p) (\<lambda>v0.
     st_bind (st_set Hp 0 v0) (\<lambda>_.
     st_bind (st_eval2 Hp_inner x p) (\<lambda>mid.
     st_bind (st_set_slice Hp (Some 1) (Some (- 1)) mid) (\<lambda>_.
     st_bind (st_eval2 Hp_last x p) (\<lambda>vl.
     st_bind (st_set Hp (- 1) vl) (\<lambda>_.
     st_return Hp))))))))"

text \<open>What the caller sees of a returned array: its entries, or the exception.\<close>

definition array_outcome :: "(py_error + nat) \<times> store \<Rightarrow> py_error + real list" where
  "array_outcome rs = (case rs of (Inl e, s') \<Rightarrow> Inl e | (Inr d, s') \<Rightarrow> Inr (heap s' d))"

text \<open>The store once a local array with entries \<open>b\<close> has been created in \<open>s\<close>.\<close>

definition with_local :: "store \<Rightarrow> real list \<Rightarrow> store" where
  "with_local s b = s\<lparr>heap := (heap s)(used s := b), used := Suc (used s)\<rparr>"

section \<open>Closed forms\<close>



definition grad_mid :: "real list \<Rightarrow> real list" where
  "grad_mid x = map (\<lambda>i. 200 * (x ! i - (x ! (i - 1)) ^ 2) - 400 * x ! i * (x ! (i + 1) - (x ! i) ^ 2) - 2 * (1 - x ! i)) [1..<length x - 1]"

text \<open>
  Entry \<open>(i, j)\<close> of the Hessian of that sum: \<open>diag_entry\<close> on the main diagonal,
  \<open>- 400 x\<close> at the smaller of the two indices on the two neighbouring diagonals, zero
  elsewhere. \<open>diag_mid\<close> lists the diagonal entries other than the first and the last.
\<close>

definition diag_entry :: "real list \<Rightarrow> nat \<Rightarrow> real" where
  "diag_entry x i =
     (if i = 0 then 1200 * (x ! 0) ^ 2 - 400 * x ! 1 + 2
      else if i = length x - 1 then 200
      else 202 + 1200 * (x ! i) ^ 2 - 400 * x ! (i + 1))"

definition hess_entry :: "real list \<Rightarrow> nat \<Rightarrow> nat \<Rightarrow> real" where
  "hess_entry x i j =
     (if j = i + 1 then - 400 * x ! i
      else if i = j + 1 then - 400 * x ! j
      else if i = j then diag_entry x i
      else 0)"

definition diag_mid :: "real list \<Rightarrow> real list" where
  "diag_mid x = map (\<lambda>i. 202 + 1200 * (x ! i) ^ 2 - 400 * x ! (i + 1)) [1..<length x - 1]"


definition hp_mid :: "real list \<Rightarrow> real list \<Rightarrow> real list" where
  "hp_mid x p = map (\<lambda>i. - 400 * x ! (i - 1) * p ! (i - 1) + (202 + 1200 * (x ! i) ^ 2 - 400 * x ! (i + 1)) * p ! i
                         - 400 * x ! i * p ! (i + 1)) [1..<length x - 1]"

section \<open>Indexing and slicing lemmas\<close>

lemma bind_r_Inr [simp]: "bind_r (Inr v) f = f v"
  by (simp add: bind_r_def)

lemma bind_r_Inl [simp]: "bind_r (Inl e) f = Inl e"
  by (simp add: bind_r_def)

lemma slice_bound_pos: "slice_bound n (int k) = min n k"
  by (simp add: slice_bound_def)

lemma slice_bound_1: "slice_bound n 1 = min n 1"
  using slice_bound_pos [of n 1] by simp

lemma slice_bound_2: "slice_bound n 2 = min n 2"
  using slice_bound_pos [of n 2] by simp

lemma slice_bound_m1: "slice_bound n (- 1) = n - 1"
  by (simp add: slice_bound_def)

lemma slice_bound_m2: "slice_bound n (- 2) = n - 2"
  by (simp add: slice_bound_def)

lemmas slice_bounds = slice_start_def slice_stop_def slice_bound_1 slice_bound_2 slice_bound_m1 slice_bound_m2

lemma drop_min: "drop (min (length x) k) x = drop k x"
  by (simp add: min_def)


lemma slice_from2: "py_slice (Some 2) None x = drop 2 x"
  using drop_min [of x 2] by (simp add: py_slice_def slice_bounds)

lemma slice_to_m1: "py_slice None (Some (- 1)) x = take (length x - 1) x"
  by (simp add: py_slice_def slice_bounds)

lemma slice_to_m2: "py_slice None (Some (- 2)) x = take (length x - 2) x"
  by (simp add: py_slice_def slice_bounds numeral_2_eq_2)

lemma slice_1_m1: "py_slice (Some 1) (Some (- 1)) x = take (length x - 2) (drop 1 x)"
proof (cases "length x = 0")
  case True
  then show ?thesis by (simp add: py_slice_def slice_bounds)
next
  case False
  then have "min (length x) 1 = 1" by (cases x) simp_all
  then show ?thesis by (simp add: py_slice_def slice_bounds numeral_2_eq_2)
qed

lemma np_bin_same: "length a = length b \<Longrightarrow> np_bin f a b = Inr (map2 f a b)"
  by (simp add: np_bin_def)

lemma py_get_0: "2 \<le> length a \<Longrightarrow> py_get a 0 = Inr (a ! 0)"
  by (auto simp: py_get_def)

lemma py_get_1: "2 \<le> length a \<Longrightarrow> py_get a 1 = Inr (a ! 1)"
  by (auto simp: py_get_def)

lemma py_get_m1: "2 \<le> length a \<Longrightarrow> py_get a (- 1) = Inr (a ! (length a - 1))"
  by (auto simp: py_get_def nat_diff_distrib')

lemma py_get_m2: "2 \<le> length a \<Longrightarrow> py_get a (- 2) = Inr (a ! (length a - 2))"
  by (auto simp: py_get_def nat_diff_distrib')

lemma py_set_front: "py_set (z # w) 0 a = Inr (a # w)"
  by (simp add: py_set_def)

lemma py_set_back: "py_set (a # v @ [z]) (- 1) b = Inr (a # v @ [b])"
proof -
  have "nat (1 + int (length v)) = Suc (length v)" by simp
  then show ?thesis by (simp add: py_set_def)
qed

lemma py_set_slice_zeros:
  assumes "2 \<le> n" "length v = n - 2"
  shows "py_set_slice (replicate n z) (Some 1) (Some (- 1)) v = Inr (z # v @ [z])"
proof -
  obtain m where n: "n = Suc (Suc m)"
    using assms(1) by (metis add_2_eq_Suc le_Suc_ex)
  have r: "replicate (Suc (Suc m)) z = z # replicate m z @ [z]"
    by (simp add: replicate_append_same)
  show ?thesis using assms(2) unfolding n r
    by (simp add: py_set_slice_def slice_bounds Let_def)
qed

lemma Rosenbrock_derivative_closed:
  assumes "2 \<le> length x"
  shows "Rosenbrock_derivative x =
     Inr ((- 400 * x ! 0 * (x ! 1 - (x ! 0) ^ 2) - 2 * (1 - x ! 0)) # grad_mid x
          @ [200 * (x ! (length x - 1) - (x ! (length x - 2)) ^ 2)])"
proof -
  let ?n = "length x"
  let ?xm = "take (?n - 2) (drop 1 x)"
  let ?a = "map2 (-) ?xm (map (\<lambda>v. v ^ 2) (take (?n - 2) x))"
  let ?b = "map2 (-) (drop 2 x) (map (\<lambda>v. v ^ 2) ?xm)"
  let ?c = "map2 (*) (map (\<lambda>v. 400 * v) ?xm) ?b"
  let ?d = "map2 (-) (map (\<lambda>v. 200 * v) ?a) ?c"
  let ?mid = "map2 (-) ?d (map (\<lambda>v. 2 * (1 - v)) ?xm)"
  have lxm: "length ?xm = ?n - 2" using assms by simp
  have a: "np_bin (-) ?xm (map (\<lambda>v. v ^ 2) (take (?n - 2) x)) = Inr ?a"
    by (rule np_bin_same) (use assms in simp)
  have b: "np_bin (-) (drop 2 x) (map (\<lambda>v. v ^ 2) ?xm) = Inr ?b"
    by (rule np_bin_same) (use assms in simp)
  have c: "np_bin (*) (map (\<lambda>v. 400 * v) ?xm) ?b = Inr ?c"
    by (rule np_bin_same) (use assms in simp)
  have d: "np_bin (-) (map (\<lambda>v. 200 * v) ?a) ?c = Inr ?d"
    by (rule np_bin_same) (use assms in simp)
  have m: "np_bin (-) ?d (map (\<lambda>v. 2 * (1 - v)) ?xm) = Inr ?mid"
    by (rule np_bin_same) (use assms in simp)
  have len: "length (grad_mid x) = ?n - 2" by (simp add: grad_mid_def)
  have mid: "?mid = grad_mid x"
    unfolding grad_mid_def
    by (rule nth_equalityI) (use assms in \<open>auto simp: nth_append\<close>)
  show ?thesis
    unfolding Rosenbrock_derivative_def derivative_inner_def derivative_first_def derivative_last_def
      Let_def slice_from2 slice_to_m2 slice_1_m1 zeros_like_def
      a b c d m mid bind_r_Inr py_set_slice_zeros [OF assms len]
      py_get_0 [OF assms] py_get_1 [OF assms] py_get_m1 [OF assms] py_get_m2 [OF assms]
      py_set_front py_set_back ..
qed





lemma replicate_ends: "2 \<le> n \<Longrightarrow> replicate n z = z # replicate (n - 2) z @ [z]"
proof -
  assume "2 \<le> n"
  then obtain m where n: "n = Suc (Suc m)"
    by (metis add_2_eq_Suc le_Suc_ex)
  show ?thesis unfolding n by (simp add: replicate_append_same)
qed




section \<open>The Hessian and the Hessian-vector product in closed form\<close>

lemma sequence_r_Inr: "sequence_r (map Inr vs) = Inr vs"
  by (induction vs) simp_all

lemma map2_upt: "map2 f (map a [0..<n]) (map b [0..<n]) = map (\<lambda>j. f (a j) (b j)) [0..<n]"
  by (rule nth_equalityI) simp_all

lemma np_bin2_square:
  "np_bin2 f (map (\<lambda>i. map (a i) [0..<n]) [0..<n]) (map (\<lambda>i. map (b i) [0..<n]) [0..<n])
   = Inr (map (\<lambda>i. map (\<lambda>j. f (a i j) (b i j)) [0..<n]) [0..<n])"
proof -
  have "map2 (np_bin f) (map (\<lambda>i. map (a i) [0..<n]) [0..<n]) (map (\<lambda>i. map (b i) [0..<n]) [0..<n])
        = map (\<lambda>i. np_bin f (map (a i) [0..<n]) (map (b i) [0..<n])) [0..<n]"
    by (rule map2_upt)
  also have "\<dots> = map (\<lambda>i. Inr (map (\<lambda>j. f (a i j) (b i j)) [0..<n])) [0..<n]"
    by (simp add: np_bin_same map2_upt)
  also have "\<dots> = map Inr (map (\<lambda>i. map (\<lambda>j. f (a i j) (b i j)) [0..<n]) [0..<n])"
    by simp
  finally have e: "map2 (np_bin f) (map (\<lambda>i. map (a i) [0..<n]) [0..<n]) (map (\<lambda>i. map (b i) [0..<n]) [0..<n])
        = map Inr (map (\<lambda>i. map (\<lambda>j. f (a i j) (b i j)) [0..<n]) [0..<n])" .
  show ?thesis
    unfolding np_bin2_def e sequence_r_Inr by simp
qed

lemma np_diag_closed:
  "np_diag v k = map (\<lambda>i. map (\<lambda>j. if int j - int i = k then v ! (if 0 \<le> k then i else j) else 0)
       [0..<length v + nat \<bar>k\<bar>]) [0..<length v + nat \<bar>k\<bar>]"
  by (simp add: np_diag_def Let_def)

lemma py_set_slice_inner:
  assumes "length v = length w"
  shows "py_set_slice (a # w @ [b]) (Some 1) (Some (- 1)) v = Inr (a # v @ [b])"
  using assms by (simp add: py_set_slice_def slice_bounds Let_def)

lemma diag_list_nth:
  assumes "2 \<le> length x" "i < length x"
  shows "((1200 * (x ! 0) ^ 2 - 400 * x ! 1 + 2) # diag_mid x @ [200]) ! i = diag_entry x i"
proof -
  have lm: "length (diag_mid x) = length x - 2" by (simp add: diag_mid_def)
  consider "i = 0" | "1 \<le> i" "i + 1 < length x" | "i = length x - 1" "1 \<le> i"
    using assms(2) by linarith
  then show ?thesis
  proof cases
    case 1
    then show ?thesis by (simp add: diag_entry_def)
  next
    case 2
    then have "i - 1 < length (diag_mid x)" "i \<noteq> 0" "i \<noteq> length x - 1"
      unfolding lm by linarith+
    then show ?thesis using 2
      by (simp add: nth_Cons' nth_append diag_entry_def diag_mid_def)
  next
    case 3
    then have "i - 1 = length (diag_mid x)" "i \<noteq> 0"
      unfolding lm using assms by linarith+
    then show ?thesis using 3
      by (simp add: nth_Cons' nth_append diag_entry_def)
  qed
qed

lemma Rosenbrock_second_derivative_closed:
  assumes "2 \<le> length x"
  shows "Rosenbrock_second_derivative x =
     Inr (map (\<lambda>i. map (\<lambda>j. hess_entry x i j) [0..<length x]) [0..<length x])"
proof -
  let ?n = "length x"
  let ?up = "map (\<lambda>v. - 400 * v) (take (?n - 1) x)"
  let ?lo = "map (\<lambda>v. 400 * v) (take (?n - 1) x)"
  let ?dg = "(1200 * (x ! 0) ^ 2 - 400 * x ! 1 + 2) # diag_mid x @ [200]"
  have n1: "?n - 1 + nat \<bar>1::int\<bar> = ?n" "?n - 1 + nat \<bar>- 1::int\<bar> = ?n" using assms by simp_all
  have lup: "length ?up + nat \<bar>1::int\<bar> = ?n" "length ?lo + nat \<bar>- 1::int\<bar> = ?n"
    using assms by simp_all
  have ldg: "length ?dg + nat \<bar>0::int\<bar> = ?n" using assms by (simp add: diag_mid_def)
  have lm: "length (diag_mid x) = length (replicate (?n - 2) (0::real))" by (simp add: diag_mid_def)
  have mid: "np_bin (-) (map (\<lambda>v. 202 + 1200 * v ^ 2) (take (?n - 2) (drop 1 x))) (map (\<lambda>v. 400 * v) (drop 2 x))
        = Inr (diag_mid x)"
  proof -
    have "map2 (-) (map (\<lambda>v. 202 + 1200 * v ^ 2) (take (?n - 2) (drop 1 x))) (map (\<lambda>v. 400 * v) (drop 2 x)) = diag_mid x"
      unfolding diag_mid_def by (rule nth_equalityI) (use assms in auto)
    moreover have "length (map (\<lambda>v. 202 + 1200 * v ^ 2) (take (?n - 2) (drop 1 x))) = length (map (\<lambda>v. 400 * v) (drop 2 x))"
      using assms by simp
    ultimately show ?thesis by (simp only: np_bin_same)
  qed
  have "Rosenbrock_second_derivative x =
     Inr (map (\<lambda>i. map (\<lambda>j. ((if int j - int i = 1 then ?up ! (if 0 \<le> (1::int) then i else j) else 0)
                           - (if int j - int i = - 1 then ?lo ! (if 0 \<le> (- 1::int) then i else j) else 0))
                           + (if int j - int i = 0 then ?dg ! (if 0 \<le> (0::int) then i else j) else 0)) [0..<?n]) [0..<?n])"
    unfolding Rosenbrock_second_derivative_def H_offdiagonal_def diagonal_first_def diagonal_inner_def
      Let_def slice_to_m1 slice_1_m1 slice_from2 zeros_like_def
      np_diag_closed lup np_bin2_square bind_r_Inr
      py_get_0 [OF assms] py_get_1 [OF assms] replicate_ends [OF assms, of "0::real"]
      py_set_front py_set_back mid py_set_slice_inner [OF lm] ldg ..
  also have "\<dots> = Inr (map (\<lambda>i. map (\<lambda>j. hess_entry x i j) [0..<length x]) [0..<length x])"
  proof -
    have "((if int j - int i = 1 then ?up ! (if 0 \<le> (1::int) then i else j) else 0)
                           - (if int j - int i = - 1 then ?lo ! (if 0 \<le> (- 1::int) then i else j) else 0))
                           + (if int j - int i = 0 then ?dg ! (if 0 \<le> (0::int) then i else j) else 0)
          = hess_entry x i j" if "i < ?n" "j < ?n" for i j
    proof -
      consider "j = i + 1" | "i = j + 1" | "i = j" | "j \<noteq> i + 1" "i \<noteq> j + 1" "i \<noteq> j" by blast
      then show ?thesis
      proof cases
        case 1
        then show ?thesis using that by (simp add: hess_entry_def)
      next
        case 2
        then show ?thesis using that by (simp add: hess_entry_def)
      next
        case 3
        then show ?thesis using that diag_list_nth [OF assms that(1)] by (simp add: hess_entry_def)
      next
        case 4
        then have "int j - int i \<noteq> 1" "int j - int i \<noteq> - 1" "int j - int i \<noteq> 0" by linarith+
        then show ?thesis using 4 by (simp add: hess_entry_def)
      qed
    qed
    then show ?thesis by simp
  qed
  finally show ?thesis .
qed

lemma Rosenbrock_second_derivative_p_closed:
  assumes "2 \<le> length x" "length p = length x"
  shows "Rosenbrock_second_derivative_p x p =
     Inr (((1200 * (x ! 0) ^ 2 - 400 * x ! 1 + 2) * p ! 0 - 400 * x ! 0 * p ! 1) # hp_mid x p
          @ [- 400 * x ! (length x - 2) * p ! (length x - 2) + 200 * p ! (length x - 1)])"
proof -
  let ?n = "length x"
  let ?a = "map2 (*) (map (\<lambda>v. - 400 * v) (take (?n - 2) x)) (take (?n - 2) p)"
  let ?dg = "map2 (-) (map (\<lambda>v. 202 + 1200 * v ^ 2) (take (?n - 2) (drop 1 x))) (map (\<lambda>v. 400 * v) (drop 2 x))"
  let ?b = "map2 (*) ?dg (take (?n - 2) (drop 1 p))"
  let ?ab = "map2 (+) ?a ?b"
  let ?c = "map2 (*) (map (\<lambda>v. 400 * v) (take (?n - 2) (drop 1 x))) (drop 2 p)"
  let ?mid = "map2 (-) ?ab ?c"
  have p2: "2 \<le> length p" using assms by simp
  have pn: "length p - 2 = ?n - 2" "length p - 1 = ?n - 1" using assms by simp_all
  have a: "np_bin (*) (map (\<lambda>v. - 400 * v) (take (?n - 2) x)) (take (?n - 2) p) = Inr ?a"
    by (rule np_bin_same) (use assms in simp)
  have dg: "np_bin (-) (map (\<lambda>v. 202 + 1200 * v ^ 2) (take (?n - 2) (drop 1 x))) (map (\<lambda>v. 400 * v) (drop 2 x)) = Inr ?dg"
    by (rule np_bin_same) (use assms in simp)
  have b: "np_bin (*) ?dg (take (?n - 2) (drop 1 p)) = Inr ?b"
    by (rule np_bin_same) (use assms in simp)
  have ab: "np_bin (+) ?a ?b = Inr ?ab"
    by (rule np_bin_same) (use assms in simp)
  have c: "np_bin (*) (map (\<lambda>v. 400 * v) (take (?n - 2) (drop 1 x))) (drop 2 p) = Inr ?c"
    by (rule np_bin_same) (use assms in simp)
  have m: "np_bin (-) ?ab ?c = Inr ?mid"
    by (rule np_bin_same) (use assms in simp)
  have len: "length (hp_mid x p) = length (replicate (?n - 2) (0::real))" by (simp add: hp_mid_def)
  have mid: "?mid = hp_mid x p"
    unfolding hp_mid_def
    by (rule nth_equalityI) (use assms in \<open>auto simp: nth_append\<close>)
  show ?thesis
    unfolding Rosenbrock_second_derivative_p_def Hp_first_def Hp_inner_def Hp_last_def
      Let_def slice_from2 slice_to_m2 slice_1_m1 zeros_like_def pn
      a dg b ab c m mid bind_r_Inr replicate_ends [OF assms(1), of "0::real"]
      py_get_0 [OF assms(1)] py_get_1 [OF assms(1)] py_get_m2 [OF assms(1)]
      py_get_0 [OF p2] py_get_1 [OF p2] py_get_m1 [OF p2] py_get_m2 [OF p2] pn
      py_set_front py_set_slice_inner [OF len] py_set_back ..
qed



section \<open>The objective and its gradient: claims\<close>



text \<open>
  C9. For every dimension \<open>n\<close> of at least two, \<open>Rosenbrock_derivative\<close> at the all-ones
  vector returns the zero vector of dimension \<open>n\<close>.
\<close>

theorem Rosenbrock_derivative_ones:
  assumes "2 \<le> n"
  shows "Rosenbrock_derivative (replicate n 1) = Inr (replicate n 0)"
proof -
  let ?x = "replicate n (1::real)"
  have len: "2 \<le> length ?x" using assms by simp
  have mid: "grad_mid ?x = replicate (n - 2) 0"
    unfolding grad_mid_def by (rule nth_equalityI) auto
  have a: "- 400 * ?x ! 0 * (?x ! 1 - (?x ! 0) ^ 2) - 2 * (1 - ?x ! 0) = 0"
    using assms by simp
  have b: "200 * (?x ! (length ?x - 1) - (?x ! (length ?x - 2)) ^ 2) = 0"
    using assms by simp
  show ?thesis
    unfolding Rosenbrock_derivative_closed [OF len] mid a b replicate_ends [OF assms, of "0::real"] ..
qed

text \<open>The claim at \<open>n = 5\<close>, the dimension of the notebook's run.\<close>

theorem Rosenbrock_derivative_ones_witness:
  "Rosenbrock_derivative [1, 1, 1, 1, 1] = Inr [0, 0, 0, 0, 0]"
proof -
  have h: "(2::nat) \<le> 5" by simp
  from Rosenbrock_derivative_ones [OF h] show ?thesis by (simp add: numeral_eq_Suc)
qed



section \<open>The Hessian and the Hessian-vector product: claims\<close>


lemma hess_entry_sym: "hess_entry x i j = hess_entry x j i"
  by (auto simp: hess_entry_def)



text \<open>
  C3. For a vector \<open>x\<close> of dimension \<open>n\<close>, at least two, the matrix \<open>H\<close> the dense routine
  returns has \<open>n\<close> rows of \<open>n\<close> entries and is symmetric: \<open>H[i][j] = H[j][i]\<close> for all
  indices \<open>i\<close> and \<open>j\<close>.
\<close>

theorem hessian_symmetric:
  assumes "2 \<le> length x"
  shows "\<exists>H. Rosenbrock_second_derivative x = Inr H \<and> length H = length x \<and>
             (\<forall>i<length x. length (H ! i) = length x) \<and>
             (\<forall>i<length x. \<forall>j<length x. H ! i ! j = H ! j ! i)"
  unfolding Rosenbrock_second_derivative_closed [OF assms] using hess_entry_sym [of x] by simp

text \<open>The claim at \<open>x = [1, 2, 3]\<close> and the entries \<open>(0, 1)\<close> and \<open>(1, 0)\<close>.\<close>

theorem hessian_symmetric_witness:
  "\<exists>H. Rosenbrock_second_derivative [1, 2, 3] = Inr H \<and> length H = 3 \<and> length (H ! 0) = 3
        \<and> H ! 0 ! 1 = H ! 1 ! 0 \<and> H ! 0 ! 1 = - 400"
proof -
  have h: "2 \<le> length [1, 2, 3 :: real]" by simp
  from hessian_symmetric [OF h] obtain H where
    H: "Rosenbrock_second_derivative [1, 2, 3] = Inr H" "length H = length [1, 2, 3 :: real]"
    "\<forall>i<length [1, 2, 3 :: real]. length (H ! i) = length [1, 2, 3 :: real]"
    "\<forall>i<length [1, 2, 3 :: real]. \<forall>j<length [1, 2, 3 :: real]. H ! i ! j = H ! j ! i"
    by blast
  have v: "Rosenbrock_second_derivative [1, 2, 3] = Inr [[402, - 400, 0], [- 400, 3802, - 800], [0, - 800, 200]]"
    unfolding Rosenbrock_second_derivative_closed [OF h]
    by (simp add: hess_entry_def diag_entry_def upt_conv_Cons)
  with H(1) have "H = [[402, - 400, 0], [- 400, 3802, - 800], [0, - 800, 200]]" by simp
  then have e: "H ! 0 ! 1 = - 400" by simp
  from H(3) have "length (H ! 0) = 3" by simp
  moreover from H(4) have "H ! 0 ! 1 = H ! 1 ! 0" by simp
  ultimately show ?thesis using H(1,2) e by simp
qed

section \<open>Index safety\<close>

lemma py_get_len1: "py_get [a] 1 = Inl IndexError" "py_get [a] (- 2) = Inl IndexError" "py_get [a] 0 = Inr a"
  by (simp_all add: py_get_def)

lemma Rosenbrock_derivative_len1: "Rosenbrock_derivative [a] = Inl IndexError"
  by (simp add: Rosenbrock_derivative_def derivative_inner_def derivative_first_def derivative_last_def
      Let_def slice_from2 slice_to_m2 slice_1_m1 np_bin_same
      zeros_like_def py_set_slice_def slice_bounds py_get_len1)

lemma np_diag_empty: "np_diag [] 1 = [[0]]" "np_diag [] (- 1) = [[0]]"
  by (simp_all add: np_diag_def)

lemma Rosenbrock_second_derivative_len1: "Rosenbrock_second_derivative [a] = Inl IndexError"
  by (simp add: Rosenbrock_second_derivative_def H_offdiagonal_def diagonal_first_def diagonal_inner_def
      Let_def slice_to_m1 np_diag_empty np_bin2_def np_bin_same
      zeros_like_def py_get_len1)

lemma Rosenbrock_second_derivative_p_len1: "Rosenbrock_second_derivative_p [a] p = Inl IndexError"
  by (simp add: Rosenbrock_second_derivative_p_def Hp_first_def Hp_inner_def Hp_last_def
      Let_def zeros_like_def py_get_len1)

text \<open>
  C10. When \<open>x\<close> and \<open>p\<close> have the same dimension, at least two, every index the three
  routines read (\<open>x[0]\<close>, \<open>x[1]\<close>, \<open>x[-1]\<close>, \<open>x[-2]\<close>, and the same in \<open>p\<close>) is in
  bounds and each routine returns a result. When \<open>x\<close> has dimension one, \<open>x[1]\<close> and
  \<open>x[-2]\<close> are out of range and each of the three routines raises IndexError; so is
  \<open>p[-2]\<close> for a \<open>p\<close> of dimension one.
\<close>

theorem index_safety:
  "(2 \<le> length x \<and> length p = length x \<longrightarrow>
      (\<exists>g. Rosenbrock_derivative x = Inr g) \<and>
      (\<exists>H. Rosenbrock_second_derivative x = Inr H) \<and>
      (\<exists>h. Rosenbrock_second_derivative_p x p = Inr h) \<and>
      py_get x 0 = Inr (x ! 0) \<and> py_get x 1 = Inr (x ! 1) \<and>
      py_get x (- 1) = Inr (x ! (length x - 1)) \<and> py_get x (- 2) = Inr (x ! (length x - 2)) \<and>
      py_get p 0 = Inr (p ! 0) \<and> py_get p 1 = Inr (p ! 1) \<and>
      py_get p (- 1) = Inr (p ! (length p - 1)) \<and> py_get p (- 2) = Inr (p ! (length p - 2))) \<and>
   (length x = 1 \<longrightarrow>
      py_get x 1 = Inl IndexError \<and> py_get x (- 2) = Inl IndexError \<and>
      Rosenbrock_derivative x = Inl IndexError \<and>
      Rosenbrock_second_derivative x = Inl IndexError \<and>
      Rosenbrock_second_derivative_p x p = Inl IndexError) \<and>
   (length p = 1 \<longrightarrow> py_get p (- 2) = Inl IndexError)"
proof (intro conjI impI)
  assume "length x = 1"
  then obtain a where x: "x = [a]" by (cases x) simp_all
  show "py_get x 1 = Inl IndexError" "py_get x (- 2) = Inl IndexError"
    "Rosenbrock_derivative x = Inl IndexError"
    "Rosenbrock_second_derivative x = Inl IndexError"
    "Rosenbrock_second_derivative_p x p = Inl IndexError"
    unfolding x by (rule py_get_len1 Rosenbrock_derivative_len1 Rosenbrock_second_derivative_len1 Rosenbrock_second_derivative_p_len1)+
next
  assume "length p = 1"
  then obtain b where p: "p = [b]" by (cases p) simp_all
  show "py_get p (- 2) = Inl IndexError" unfolding p by (rule py_get_len1)
next
  assume h: "2 \<le> length x \<and> length p = length x"
  then have x: "2 \<le> length x" and px: "length p = length x" and p: "2 \<le> length p" by simp_all
  show "\<exists>g. Rosenbrock_derivative x = Inr g" using Rosenbrock_derivative_closed [OF x] by blast
  show "\<exists>H. Rosenbrock_second_derivative x = Inr H" using Rosenbrock_second_derivative_closed [OF x] by blast
  show "\<exists>h. Rosenbrock_second_derivative_p x p = Inr h" using Rosenbrock_second_derivative_p_closed [OF x px] by blast
  show "py_get x 0 = Inr (x ! 0)" "py_get x 1 = Inr (x ! 1)"
    "py_get x (- 1) = Inr (x ! (length x - 1))" "py_get x (- 2) = Inr (x ! (length x - 2))"
    by (rule py_get_0 py_get_1 py_get_m1 py_get_m2, rule x)+
  show "py_get p 0 = Inr (p ! 0)" "py_get p 1 = Inr (p ! 1)"
    "py_get p (- 1) = Inr (p ! (length p - 1))" "py_get p (- 2) = Inr (p ! (length p - 2))"
    by (rule py_get_0 py_get_1 py_get_m1 py_get_m2, rule p)+
qed

text \<open>The claim at \<open>x = [1, 2]\<close>, \<open>p = [3, 4]\<close> and at \<open>x = [7]\<close>, \<open>p = [8]\<close>.\<close>

theorem index_safety_witness:
  "(\<exists>g. Rosenbrock_derivative [1, 2] = Inr g) \<and>
   (\<exists>H. Rosenbrock_second_derivative [1, 2] = Inr H) \<and>
   (\<exists>h. Rosenbrock_second_derivative_p [1, 2] [3, 4] = Inr h) \<and>
   py_get [1, 2 :: real] 1 = Inr 2 \<and> py_get [1, 2 :: real] (- 2) = Inr 1 \<and> py_get [3, 4 :: real] (- 2) = Inr 3 \<and>
   py_get [7 :: real] 1 = Inl IndexError \<and> py_get [7 :: real] (- 2) = Inl IndexError \<and>
   py_get [8 :: real] (- 2) = Inl IndexError \<and>
   Rosenbrock_derivative [7] = Inl IndexError \<and>
   Rosenbrock_second_derivative [7] = Inl IndexError \<and>
   Rosenbrock_second_derivative_p [7] [8] = Inl IndexError"
  using index_safety [of "[1, 2]" "[3, 4]"] index_safety [of "[7]" "[8]"] by simp

section \<open>Purity of the routines\<close>

lemma st_zeros_like_run: "st_zeros_like a s = (Inr (used s), with_local s (zeros_like (heap s a)))"
  by (simp add: st_zeros_like_def with_local_def)

lemma st_eval_old: "a < used s \<Longrightarrow> st_eval f a (with_local s b) = (f (heap s a), with_local s b)"
  by (simp add: st_eval_def with_local_def)

lemma st_eval2_old:
  "a < used s \<Longrightarrow> c < used s \<Longrightarrow> st_eval2 f a c (with_local s b) = (f (heap s a) (heap s c), with_local s b)"
  by (simp add: st_eval2_def with_local_def)

lemma st_eval_local: "st_eval f (used s) (with_local s b) = (f b, with_local s b)"
  by (simp add: st_eval_def with_local_def)

lemma st_set_local:
  "st_set (used s) i v (with_local s b) =
     (case py_set b i v of Inl e \<Rightarrow> (Inl e, with_local s b) | Inr b' \<Rightarrow> (Inr (), with_local s b'))"
  by (simp add: st_set_def with_local_def split: sum.splits)

lemma st_set_slice_local:
  "st_set_slice (used s) lo hi v (with_local s b) =
     (case py_set_slice b lo hi v of Inl e \<Rightarrow> (Inl e, with_local s b) | Inr b' \<Rightarrow> (Inr (), with_local s b'))"
  by (simp add: st_set_slice_def with_local_def split: sum.splits)

lemma with_local_frame: "a < used s \<Longrightarrow> heap (with_local s b) a = heap s a"
  by (simp add: with_local_def)

lemma with_local_here: "heap (with_local s b) (used s) = b"
  by (simp add: with_local_def)

lemma Rosenbrock_derivative_st_run:
  assumes "x < used s"
  shows "\<exists>b. Rosenbrock_derivative_st x s =
            (map_sum id (\<lambda>_. used s) (Rosenbrock_derivative (heap s x)), with_local s b) \<and>
            (\<forall>g. Rosenbrock_derivative (heap s x) = Inr g \<longrightarrow> b = g)"
  unfolding Rosenbrock_derivative_st_def Rosenbrock_derivative_def Let_def st_bind_def
  by (auto simp: st_zeros_like_run st_eval_old [OF assms] st_set_local st_set_slice_local st_return_def
      bind_r_def split: sum.splits)

lemma Rosenbrock_second_derivative_st_run:
  assumes "x < used s"
  shows "\<exists>s'. Rosenbrock_second_derivative_st x s = (Rosenbrock_second_derivative (heap s x), s') \<and>
            (s' = s \<or> (\<exists>b. s' = with_local s b))"
  unfolding Rosenbrock_second_derivative_st_def Rosenbrock_second_derivative_def Let_def st_bind_def st_asarray_def
  by (auto simp: st_zeros_like_run st_eval_old [OF assms] st_eval_local st_set_local st_set_slice_local st_return_def
      st_eval_def [of H_offdiagonal] bind_r_def split: sum.splits)

lemma Rosenbrock_second_derivative_p_st_run:
  assumes "x < used s" "p < used s"
  shows "\<exists>b. Rosenbrock_second_derivative_p_st x p s =
            (map_sum id (\<lambda>_. used s) (Rosenbrock_second_derivative_p (heap s x) (heap s p)), with_local s b) \<and>
            (\<forall>g. Rosenbrock_second_derivative_p (heap s x) (heap s p) = Inr g \<longrightarrow> b = g)"
  unfolding Rosenbrock_second_derivative_p_st_def Rosenbrock_second_derivative_p_def Let_def st_bind_def st_asarray_def
  by (auto simp: st_zeros_like_run st_eval2_old [OF assms] st_set_local st_set_slice_local st_return_def
      bind_r_def split: sum.splits)

lemma Rosenbrock_st_value: "Rosenbrock_st x s = (Rosenbrock (heap s x), s)"
  by (simp add: Rosenbrock_st_def st_eval_def)

lemma Rosenbrock_derivative_st_value:
  assumes "x < used s"
  shows "array_outcome (Rosenbrock_derivative_st x s) = Rosenbrock_derivative (heap s x)"
proof -
  from Rosenbrock_derivative_st_run [OF assms] obtain b where
    r: "Rosenbrock_derivative_st x s =
          (map_sum id (\<lambda>_. used s) (Rosenbrock_derivative (heap s x)), with_local s b)"
    and b: "\<forall>g. Rosenbrock_derivative (heap s x) = Inr g \<longrightarrow> b = g"
    by blast
  show ?thesis
  proof (cases "Rosenbrock_derivative (heap s x)")
    case (Inl e)
    then show ?thesis by (simp add: r array_outcome_def)
  next
    case (Inr g)
    with b have "b = g" by simp
    with Inr show ?thesis by (simp add: r array_outcome_def with_local_here)
  qed
qed

lemma Rosenbrock_derivative_st_frame:
  assumes "x < used s" "a < used s"
  shows "heap (snd (Rosenbrock_derivative_st x s)) a = heap s a"
  using Rosenbrock_derivative_st_run [OF assms(1)] with_local_frame [OF assms(2)] by auto

lemma Rosenbrock_second_derivative_st_value:
  assumes "x < used s"
  shows "fst (Rosenbrock_second_derivative_st x s) = Rosenbrock_second_derivative (heap s x)"
  using Rosenbrock_second_derivative_st_run [OF assms] by auto

lemma Rosenbrock_second_derivative_st_frame:
  assumes "x < used s" "a < used s"
  shows "heap (snd (Rosenbrock_second_derivative_st x s)) a = heap s a"
  using Rosenbrock_second_derivative_st_run [OF assms(1)] with_local_frame [OF assms(2)] by auto

lemma Rosenbrock_second_derivative_p_st_value:
  assumes "x < used s" "p < used s"
  shows "array_outcome (Rosenbrock_second_derivative_p_st x p s)
         = Rosenbrock_second_derivative_p (heap s x) (heap s p)"
proof -
  from Rosenbrock_second_derivative_p_st_run [OF assms] obtain b where
    r: "Rosenbrock_second_derivative_p_st x p s =
          (map_sum id (\<lambda>_. used s) (Rosenbrock_second_derivative_p (heap s x) (heap s p)), with_local s b)"
    and b: "\<forall>g. Rosenbrock_second_derivative_p (heap s x) (heap s p) = Inr g \<longrightarrow> b = g"
    by blast
  show ?thesis
  proof (cases "Rosenbrock_second_derivative_p (heap s x) (heap s p)")
    case (Inl e)
    then show ?thesis by (simp add: r array_outcome_def)
  next
    case (Inr g)
    with b have "b = g" by simp
    with Inr show ?thesis by (simp add: r array_outcome_def with_local_here)
  qed
qed

lemma Rosenbrock_second_derivative_p_st_frame:
  assumes "x < used s" "p < used s" "a < used s"
  shows "heap (snd (Rosenbrock_second_derivative_p_st x p s)) a = heap s a"
  using Rosenbrock_second_derivative_p_st_run [OF assms(1,2)] with_local_frame [OF assms(3)] by auto

text \<open>
  C7. Each of the four routines is pure. Run on a store \<open>s\<close> with arguments that exist in
  it, a routine leaves every array of \<open>s\<close> as it was, the arguments among them. Run twice,
  on stores \<open>s\<close> and \<open>t\<close> and on arguments with the same entries, it returns the same
  value, the same entries in the returned array, or raises the same exception.
\<close>

theorem oracles_pure_and_deterministic:
  assumes "x < used s" "p < used s" "y < used t" "q < used t"
    and "heap t y = heap s x" "heap t q = heap s p"
  shows "(\<forall>a<used s. heap (snd (Rosenbrock_st x s)) a = heap s a) \<and>
         (\<forall>a<used s. heap (snd (Rosenbrock_derivative_st x s)) a = heap s a) \<and>
         (\<forall>a<used s. heap (snd (Rosenbrock_second_derivative_st x s)) a = heap s a) \<and>
         (\<forall>a<used s. heap (snd (Rosenbrock_second_derivative_p_st x p s)) a = heap s a) \<and>
         fst (Rosenbrock_st y t) = fst (Rosenbrock_st x s) \<and>
         array_outcome (Rosenbrock_derivative_st y t) = array_outcome (Rosenbrock_derivative_st x s) \<and>
         fst (Rosenbrock_second_derivative_st y t) = fst (Rosenbrock_second_derivative_st x s) \<and>
         array_outcome (Rosenbrock_second_derivative_p_st y q t)
           = array_outcome (Rosenbrock_second_derivative_p_st x p s)"
proof (intro conjI allI impI)
  fix a assume a: "a < used s"
  show "heap (snd (Rosenbrock_st x s)) a = heap s a"
    by (simp add: Rosenbrock_st_value)
  show "heap (snd (Rosenbrock_derivative_st x s)) a = heap s a"
    by (rule Rosenbrock_derivative_st_frame [OF assms(1) a])
  show "heap (snd (Rosenbrock_second_derivative_st x s)) a = heap s a"
    by (rule Rosenbrock_second_derivative_st_frame [OF assms(1) a])
  show "heap (snd (Rosenbrock_second_derivative_p_st x p s)) a = heap s a"
    by (rule Rosenbrock_second_derivative_p_st_frame [OF assms(1,2) a])
next
  show "fst (Rosenbrock_st y t) = fst (Rosenbrock_st x s)"
    by (simp add: Rosenbrock_st_value assms(5))
  show "array_outcome (Rosenbrock_derivative_st y t) = array_outcome (Rosenbrock_derivative_st x s)"
    by (simp add: Rosenbrock_derivative_st_value assms(1,3,5))
  show "fst (Rosenbrock_second_derivative_st y t) = fst (Rosenbrock_second_derivative_st x s)"
    by (simp add: Rosenbrock_second_derivative_st_value assms(1,3,5))
  show "array_outcome (Rosenbrock_second_derivative_p_st y q t)
           = array_outcome (Rosenbrock_second_derivative_p_st x p s)"
    by (simp add: Rosenbrock_second_derivative_p_st_value assms)
qed

text \<open>
  The claim on two stores: in the first \<open>x\<close> is array \<open>0\<close> and \<open>p\<close> is array \<open>1\<close>, in the second
  an array with the entries of \<open>x\<close> is array \<open>2\<close>.
\<close>

theorem oracles_pure_and_deterministic_witness:
  "heap (snd (Rosenbrock_derivative_st 0 \<lparr>heap = (\<lambda>_. [])(0 := [1, 2, 3], Suc 0 := [1, 0, 2]), used = 2\<rparr>)) 0 = [1, 2, 3] \<and>
   heap (snd (Rosenbrock_second_derivative_p_st 0 (Suc 0) \<lparr>heap = (\<lambda>_. [])(0 := [1, 2, 3], Suc 0 := [1, 0, 2]), used = 2\<rparr>)) (Suc 0) = [1, 0, 2] \<and>
   heap (snd (Rosenbrock_second_derivative_st 0 \<lparr>heap = (\<lambda>_. [])(0 := [1, 2, 3], Suc 0 := [1, 0, 2]), used = 2\<rparr>)) 0 = [1, 2, 3] \<and>
   heap (snd (Rosenbrock_st 0 \<lparr>heap = (\<lambda>_. [])(0 := [1, 2, 3], Suc 0 := [1, 0, 2]), used = 2\<rparr>)) 0 = [1, 2, 3] \<and>
   array_outcome (Rosenbrock_derivative_st 2 \<lparr>heap = (\<lambda>_. [])(0 := [9], Suc 0 := [1, 0, 2], 2 := [1, 2, 3]), used = 3\<rparr>)
     = array_outcome (Rosenbrock_derivative_st 0 \<lparr>heap = (\<lambda>_. [])(0 := [1, 2, 3], Suc 0 := [1, 0, 2]), used = 2\<rparr>) \<and>
   array_outcome (Rosenbrock_second_derivative_p_st 2 (Suc 0) \<lparr>heap = (\<lambda>_. [])(0 := [9], Suc 0 := [1, 0, 2], 2 := [1, 2, 3]), used = 3\<rparr>)
     = array_outcome (Rosenbrock_second_derivative_p_st 0 (Suc 0) \<lparr>heap = (\<lambda>_. [])(0 := [1, 2, 3], Suc 0 := [1, 0, 2]), used = 2\<rparr>)"
proof -
  let ?s = "\<lparr>heap = (\<lambda>_. [])(0 := [1, 2, 3 :: real], Suc 0 := [1, 0, 2]), used = 2\<rparr>"
  let ?t = "\<lparr>heap = (\<lambda>_. [])(0 := [9 :: real], Suc 0 := [1, 0, 2], 2 := [1, 2, 3]), used = 3\<rparr>"
  have h: "0 < used ?s" "Suc 0 < used ?s" "2 < used ?t" "Suc 0 < used ?t"
    "heap ?t 2 = heap ?s 0" "heap ?t (Suc 0) = heap ?s (Suc 0)"
    by simp_all
  from oracles_pure_and_deterministic [OF h] show ?thesis by simp
qed

end
